theory Spec2Isabelle
  imports Main "HOL-Library.Word"
begin

section \<open>Machine types\<close>

text \<open>
  The handlers are C++ compiled for an LP64 target: \<open>uint8_t\<close>, \<open>uint32_t\<close> and
  \<open>uint64_t\<close> are 8, 32 and 64 bit words, and \<open>size_t\<close> is an unsigned 64 bit
  word whose subtraction wraps modulo \<open>2 ^ 64\<close>.
\<close>

type_synonym u8 = "8 word"
type_synonym u32 = "32 word"
type_synonym size_t = "64 word"

section \<open>DfsBroker: the CLOSE request handler\<close>

text \<open>
  \<open>src/cc/DfsBroker/Lib/RequestHandlerClose.cc\<close>.  The handler reads two
  fields of the event it was created for: the buffer \<open>message\<close> and the byte
  count \<open>messageLen\<close>.  The buffer is a raw pointer in the source, so its
  contents and the count are independent fields here as well.  The count takes
  part in a subtraction with \<open>sizeof(int16_t)\<close>, which is carried out in
  \<open>size_t\<close>; the field holds the count as that subtraction sees it.  Every
  other field of the event lives in the record's extension.
\<close>

record event =
  message :: "u8 list"
  messageLen :: size_t

text \<open>
  \<open>Error::PROTOCOL_ERROR\<close> is a constant of \<open>Common/Error.h\<close>; only its name is
  used by the handler.  \<open>Error_OK\<close> stands for the codes the handler does not
  use.
\<close>

datatype error_code = Error_OK | PROTOCOL_ERROR

text \<open>
  \<open>Serialization::decode_int(&msgPtr, &remaining, &fd)\<close> is declared in
  \<open>AsyncComm/Serialization.h\<close>, which is not among the sources at hand, so the
  handler is parametrised by it.  A decoder receives the buffer, the read
  position (\<open>msgPtr\<close>, as an offset from \<open>message\<close>) and the remaining byte
  count.  It answers \<open>None\<close> where the C++ function returns \<open>false\<close>, and the
  decoded integer with the advanced position and count where it returns
  \<open>true\<close>.
\<close>

type_synonym decoder = "u8 list \<Rightarrow> nat \<Rightarrow> size_t \<Rightarrow> (u32 \<times> nat \<times> size_t) option"

text \<open>
  What one run does to its surroundings, in program order.  All replies of a run
  go through the one \<open>ResponseCallback cb(m_comm, m_event_ptr)\<close> the run
  constructs, so the callback is not repeated in the actions.
\<close>

datatype action =
    Serialization_decode_int nat size_t  \<comment> \<open>position and remaining count handed to the decoder\<close>
  | broker_close u32                     \<comment> \<open>\<open>m_broker->close(&cb, fd)\<close>\<close>
  | HT_ERROR string                      \<comment> \<open>the log line\<close>
  | cb_error error_code string           \<comment> \<open>\<open>cb.error(code, msg)\<close>\<close>

definition RequestHandlerClose_run :: "decoder \<Rightarrow> 'a event_scheme \<Rightarrow> action list" where
  "RequestHandlerClose_run decode_int m_event_ptr =
     (let remaining = messageLen m_event_ptr - 2;
          msgPtr = 2
      in Serialization_decode_int msgPtr remaining #
         (case decode_int (message m_event_ptr) msgPtr remaining of
            None \<Rightarrow>
              [HT_ERROR ''Encoding problem with CLOSE message'',
               cb_error PROTOCOL_ERROR ''Encoding problem with CLOSE message'']
          | Some (fd, _, _) \<Rightarrow> [broker_close fd]))"

text \<open>The file descriptors handed to the filesystem close primitive during a run.\<close>

fun closes :: "action list \<Rightarrow> u32 list" where
  "closes [] = []"
| "closes (broker_close fd # as) = fd # closes as"
| "closes (_ # as) = closes as"

text \<open>The error replies sent during a run.\<close>

fun error_replies :: "action list \<Rightarrow> (error_code \<times> string) list" where
  "error_replies [] = []"
| "error_replies (cb_error c msg # as) = (c, msg) # error_replies as"
| "error_replies (_ # as) = error_replies as"



section \<open>Hyperspace: the DestroySession request handler\<close>



section \<open>Hyperspace master: the lock state machine of a node\<close>

text \<open>
  The master's lock code is not among the sources at hand; only a caller of the
  master (the DestroySession handler) is.  The definitions of this section
  follow section 4.3 of the specification.
\<close>

text \<open>Modelled from the spec: the lock modes, "mode {EXCLUSIVE, SHARED}".\<close>

datatype lock_mode = EXCLUSIVE | SHARED

text \<open>
  Modelled from the spec: the results of a lock request,
  "TryLock(handle_id, mode) -> {GRANTED, PENDING, DENIED}".
\<close>

datatype lock_status = GRANTED | PENDING | DENIED

text \<open>Modelled from the spec: a handle id, an integer identifier.\<close>

type_synonym handle_id = nat

text \<open>
  Modelled from the spec: the master's per-node \<open>Lock\<close>, absent from the sources:
  "a current holder-set (one handle for EXCLUSIVE, many for SHARED) and an
  ordered wait-queue of (handle, requested-mode)".  Each holder is kept with
  the mode it was granted, so that a mixed holder-set can be told from a pure
  one.
\<close>

record lock =
  holders :: "(handle_id \<times> lock_mode) list"
  wait_queue :: "(handle_id \<times> lock_mode) list"

text \<open>Modelled from the spec: the state \<open>UNLOCKED\<close>, no holder and no waiter.\<close>

definition UNLOCKED :: lock where
  "UNLOCKED = \<lparr>holders = [], wait_queue = []\<rparr>"

text \<open>Modelled from the spec: a request or holder in mode SHARED.\<close>

definition is_shared :: "handle_id \<times> lock_mode \<Rightarrow> bool" where
  "is_shared r = (snd r = SHARED)"

text \<open>
  Modelled from the spec: \<open>TryLock(handle_id, mode)\<close> of the absent LockManager.
  "GRANTED if the holder-set is empty, or (mode=SHARED and holder-set is
  all-SHARED).  PENDING enqueues the request in FIFO order [...] when the
  request conflicts with the current holder-set.  DENIED is returned only for
  malformed requests (unknown node, handle already holds a lock)."  The node is
  the one this lock belongs to, so only the second reason for DENIED arises.
\<close>

definition TryLock :: "handle_id \<Rightarrow> lock_mode \<Rightarrow> lock \<Rightarrow> lock_status \<times> lock" where
  "TryLock h mode l =
     (if h \<in> set (map fst (holders l)) then (DENIED, l)
      else if holders l = [] \<or> (mode = SHARED \<and> list_all is_shared (holders l))
      then (GRANTED, l\<lparr>holders := holders l @ [(h, mode)]\<rparr>)
      else (PENDING, l\<lparr>wait_queue := wait_queue l @ [(h, mode)]\<rparr>))"

text \<open>
  Modelled from the spec: popping the head of the wait-queue, "all contiguous
  SHARED requests at the queue head are granted together; a single EXCLUSIVE
  request at the head is granted alone".  The result is the requests granted
  and the queue that stays.
\<close>

fun pop_wait_queue ::
  "(handle_id \<times> lock_mode) list \<Rightarrow> (handle_id \<times> lock_mode) list \<times> (handle_id \<times> lock_mode) list"
where
  "pop_wait_queue [] = ([], [])"
| "pop_wait_queue ((h, EXCLUSIVE) # q) = ([(h, EXCLUSIVE)], q)"
| "pop_wait_queue ((h, SHARED) # q) =
     ((h, SHARED) # takeWhile is_shared q, dropWhile is_shared q)"

text \<open>
  Modelled from the spec: \<open>Release(handle_id)\<close> of the absent LockManager.  It
  "removes the handle from the holder-set; if the holder-set becomes empty, pops
  the wait-queue head(s)".  The first component of the result lists the newly
  granted handles, each of which is sent a LockGranted notification.
\<close>

definition Release :: "handle_id \<Rightarrow> lock \<Rightarrow> handle_id list \<times> lock" where
  "Release h l =
     (let hs = filter (\<lambda>r. fst r \<noteq> h) (holders l)
      in if hs = []
         then (case pop_wait_queue (wait_queue l) of
                 (granted, rest) \<Rightarrow> (map fst granted, \<lparr>holders = granted, wait_queue = rest\<rparr>))
         else ([], l\<lparr>holders := hs\<rparr>))"

text \<open>
  Modelled from the spec: a sequence of "Lock/Release calls on one node", and the
  lock it leaves behind.
\<close>

datatype lock_op = OpTryLock handle_id lock_mode | OpRelease handle_id

fun lock_step :: "lock \<Rightarrow> lock_op \<Rightarrow> lock" where
  "lock_step l (OpTryLock h mode) = snd (TryLock h mode l)"
| "lock_step l (OpRelease h) = snd (Release h l)"

definition lock_steps :: "lock_op list \<Rightarrow> lock \<Rightarrow> lock" where
  "lock_steps ops l = foldl lock_step l ops"

text \<open>
  Modelled from the spec: the two halves of the invariant on a holder-set,
  "holder-set is never mixed-mode; EXCLUSIVE holder-set has at most one member".
\<close>

definition never_mixed :: "(handle_id \<times> lock_mode) list \<Rightarrow> bool" where
  "never_mixed hs = (\<forall>x \<in> set hs. \<forall>y \<in> set hs. snd x = snd y)"

definition exclusive_alone :: "(handle_id \<times> lock_mode) list \<Rightarrow> bool" where
  "exclusive_alone hs = (EXCLUSIVE \<in> set (map snd hs) \<longrightarrow> length hs \<le> 1)"

text \<open>
  The same invariant in the shape the proofs use: the holders are all SHARED, or
  there is one holder and it is EXCLUSIVE.
\<close>

definition holders_pure :: "(handle_id \<times> lock_mode) list \<Rightarrow> bool" where
  "holders_pure hs = (list_all is_shared hs \<or> (\<exists>h. hs = [(h, EXCLUSIVE)]))"

section \<open>Hyperspace master: sessions and the dispatch of client requests\<close>

text \<open>
  The master's session code is not among the sources at hand either.  The
  definitions of this section follow sections 2, 3, 4.1, 4.2 and 7 of the
  specification.  Time is the monotonic clock, in ticks.
\<close>

text \<open>Modelled from the spec: a session id, an integer identifier.\<close>

type_synonym session_id = nat

text \<open>
  Modelled from the spec: the liveness state of a session, "{CONNECTED, EXPIRED,
  DESTROYED}".
\<close>

datatype liveness = CONNECTED | EXPIRED | DESTROYED

text \<open>Modelled from the spec: the results of \<open>Keepalive\<close>, "{OK, EXPIRED}".\<close>

datatype keepalive_status = Keepalive_OK | Keepalive_EXPIRED

text \<open>
  Modelled from the spec: the errors an Open or Lock request can be answered
  with, from the taxonomy of section 7.
\<close>

datatype hyperspace_error = SessionInvalid | NodeNotFound | NodeExists

text \<open>
  Modelled from the spec: a \<open>Session\<close> as the absent SessionManager owns it, "a
  lease deadline (now + lease-timeout) [...] and a liveness state {CONNECTED,
  EXPIRED, DESTROYED}".  The handles, locks and notifications of a session are
  entries of the other components, which refer to the session by its id.
\<close>

record session =
  liveness_state :: liveness
  lease_deadline :: nat

text \<open>
  Modelled from the spec: the state of the absent master.  The SessionManager
  owns the session table and allocates session ids from a counter; \<open>tables\<close>
  is the state of HandleTable, LockManager and NotificationDispatcher, which
  "reference (never own)" sessions.
\<close>

record 'r master =
  sessions :: "session_id \<rightharpoonup> session"
  next_session_id :: session_id
  lease_timeout :: nat
  tables :: 'r

text \<open>
  Modelled from the spec: the operations of HandleTable and LockManager the
  SessionManager and the RPC layer call.  They act on \<open>tables\<close> alone, and the
  results of this section hold for every choice of them.
\<close>

record 'r components =
  HandleTable_Open :: "session_id \<Rightarrow> string \<Rightarrow> u32 \<Rightarrow> 'r \<Rightarrow> (hyperspace_error + handle_id) \<times> 'r"
  HandleTable_Close :: "handle_id \<Rightarrow> 'r \<Rightarrow> 'r"
  HandleTable_DestroyAllForSession :: "session_id \<Rightarrow> 'r \<Rightarrow> 'r"
  LockManager_TryLock :: "handle_id \<Rightarrow> lock_mode \<Rightarrow> 'r \<Rightarrow> lock_status \<times> 'r"
  LockManager_Release :: "handle_id \<Rightarrow> 'r \<Rightarrow> 'r"

text \<open>Modelled from the spec: the liveness state of a session id, if the id is known.\<close>

definition session_liveness :: "'r master \<Rightarrow> session_id \<Rightarrow> liveness option" where
  "session_liveness st sid = map_option liveness_state (sessions st sid)"

text \<open>
  Modelled from the spec: \<open>CreateSession() -> session_id\<close>, "allocates a new
  session with state CONNECTED and a fresh lease deadline".
\<close>

definition CreateSession :: "nat \<Rightarrow> 'r master \<Rightarrow> session_id \<times> 'r master" where
  "CreateSession now st =
     (next_session_id st,
      st\<lparr>sessions := (sessions st)(next_session_id st \<mapsto>
            \<lparr>liveness_state = CONNECTED, lease_deadline = now + lease_timeout st\<rparr>),
         next_session_id := Suc (next_session_id st)\<rparr>)"

text \<open>
  Modelled from the spec: \<open>Keepalive(session_id) -> {OK, EXPIRED}\<close>, "refreshes
  lease deadline if session is CONNECTED; returns EXPIRED [...] if the session
  is not found or already expired".  The deadline is extended from the time the
  keepalive is processed.
\<close>

definition Keepalive :: "session_id \<Rightarrow> nat \<Rightarrow> 'r master \<Rightarrow> keepalive_status \<times> 'r master" where
  "Keepalive sid now st =
     (case sessions st sid of
        None \<Rightarrow> (Keepalive_EXPIRED, st)
      | Some s \<Rightarrow>
          if liveness_state s = CONNECTED
          then (Keepalive_OK,
                st\<lparr>sessions := (sessions st)(sid \<mapsto> s\<lparr>lease_deadline := now + lease_timeout st\<rparr>)\<rparr>)
          else (Keepalive_EXPIRED, st))"

text \<open>
  Modelled from the spec: the expiry of one session, "transitions them
  CONNECTED->EXPIRED, and triggers cascading cleanup", for a session "whose lease
  deadline has passed".
\<close>

definition expire_session :: "'r components \<Rightarrow> nat \<Rightarrow> session_id \<Rightarrow> 'r master \<Rightarrow> 'r master" where
  "expire_session c now sid st =
     (case sessions st sid of
        None \<Rightarrow> st
      | Some s \<Rightarrow>
          if liveness_state s = CONNECTED \<and> lease_deadline s < now
          then st\<lparr>sessions := (sessions st)(sid \<mapsto> s\<lparr>liveness_state := EXPIRED\<rparr>),
                  tables := HandleTable_DestroyAllForSession c sid (tables st)\<rparr>
          else st)"

text \<open>
  Modelled from the spec: \<open>ExpireCheck()\<close>, the periodic scan over the
  sessions.  Every session id handed out so far is below the counter.
\<close>

definition ExpireCheck :: "'r components \<Rightarrow> nat \<Rightarrow> 'r master \<Rightarrow> 'r master" where
  "ExpireCheck c now st = fold (expire_session c now) [0..<next_session_id st] st"

text \<open>
  Modelled from the spec: \<open>DestroySession(session_id)\<close>, "explicit
  client-initiated teardown; identical cascade to expiry but without the wait
  for lease timeout".
\<close>

definition DestroySession :: "'r components \<Rightarrow> session_id \<Rightarrow> 'r master \<Rightarrow> 'r master" where
  "DestroySession c sid st =
     (case sessions st sid of
        None \<Rightarrow> st
      | Some s \<Rightarrow>
          if liveness_state s = CONNECTED
          then st\<lparr>sessions := (sessions st)(sid \<mapsto> s\<lparr>liveness_state := DESTROYED\<rparr>),
                  tables := HandleTable_DestroyAllForSession c sid (tables st)\<rparr>
          else st)"

text \<open>
  Modelled from the spec: \<open>Open(session_id, path, mode) -> handle_id\<close>.  A
  client request is "dispatched into SessionManager (session validity check,
  lease refresh)" and then "forwarded to HandleTable/LockManager"; Open "fails
  with SessionInvalid if the session is not CONNECTED".
\<close>

definition Open ::
  "'r components \<Rightarrow> session_id \<Rightarrow> string \<Rightarrow> u32 \<Rightarrow> 'r master
     \<Rightarrow> (hyperspace_error + handle_id) \<times> 'r master"
where
  "Open c sid path mode st =
     (if session_liveness st sid \<noteq> Some CONNECTED then (Inl SessionInvalid, st)
      else (case HandleTable_Open c sid path mode (tables st) of
              (res, t) \<Rightarrow> (res, st\<lparr>tables := t\<rparr>)))"

text \<open>
  Modelled from the spec: the Lock request.  Section 6 gives it a handle id and a
  mode; the session is the one the request arrives on.  Like Open it is
  "dispatched into SessionManager (session validity check, lease refresh)"
  before LockManager's \<open>TryLock\<close> sees it, and a session that is not CONNECTED
  is answered with SessionInvalid, the error of section 7 for an "unknown/
  expired/destroyed session".
\<close>

definition Lock ::
  "'r components \<Rightarrow> session_id \<Rightarrow> handle_id \<Rightarrow> lock_mode \<Rightarrow> 'r master
     \<Rightarrow> (hyperspace_error + lock_status) \<times> 'r master"
where
  "Lock c sid h mode st =
     (if session_liveness st sid \<noteq> Some CONNECTED then (Inl SessionInvalid, st)
      else (case LockManager_TryLock c h mode (tables st) of
              (res, t) \<Rightarrow> (Inr res, st\<lparr>tables := t\<rparr>)))"

text \<open>
  Modelled from the spec: everything that can happen to the master, the client
  requests of section 6, with the time they are processed where it matters,
  and the periodic timer.  Close and Release act on the tables alone.
\<close>

datatype master_event =
    DoCreateSession nat
  | DoKeepalive session_id nat
  | DoExpireCheck nat
  | DoDestroySession session_id
  | DoOpen session_id string u32
  | DoClose handle_id
  | DoLock session_id handle_id lock_mode
  | DoRelease handle_id

fun master_step :: "'r components \<Rightarrow> 'r master \<Rightarrow> master_event \<Rightarrow> 'r master" where
  "master_step c st (DoCreateSession now) = snd (CreateSession now st)"
| "master_step c st (DoKeepalive sid now) = snd (Keepalive sid now st)"
| "master_step c st (DoExpireCheck now) = ExpireCheck c now st"
| "master_step c st (DoDestroySession sid) = DestroySession c sid st"
| "master_step c st (DoOpen sid path mode) = snd (Open c sid path mode st)"
| "master_step c st (DoClose h) = st\<lparr>tables := HandleTable_Close c h (tables st)\<rparr>"
| "master_step c st (DoLock sid h mode) = snd (Lock c sid h mode st)"
| "master_step c st (DoRelease h) = st\<lparr>tables := LockManager_Release c h (tables st)\<rparr>"

definition master_steps :: "'r components \<Rightarrow> master_event list \<Rightarrow> 'r master \<Rightarrow> 'r master" where
  "master_steps c evs st = foldl (master_step c) st evs"

text \<open>
  Modelled from the spec: ids are allocated, so every session of the table got
  its id from the counter.
\<close>

definition master_wf :: "'r master \<Rightarrow> bool" where
  "master_wf st = (\<forall>sid \<in> dom (sessions st). sid < next_session_id st)"

text \<open>
  Modelled from the spec: a session id that was handed out and is not CONNECTED
  (it is EXPIRED or DESTROYED).
\<close>

definition session_over :: "'r master \<Rightarrow> session_id \<Rightarrow> bool" where
  "session_over st sid =
     (sid < next_session_id st \<and> session_liveness st sid \<noteq> Some CONNECTED)"

text \<open>Modelled from the spec: the master before any session exists.\<close>

definition master_init :: "nat \<Rightarrow> 'r \<Rightarrow> 'r master" where
  "master_init timeout t =
     \<lparr>sessions = Map.empty, next_session_id = 0, lease_timeout = timeout, tables = t\<rparr>"

section \<open>Hyperspace: running the DestroySession request handler\<close>


section \<open>Inputs of the examples\<close>

text \<open>
  The decoder the examples run the CLOSE handler with: it wants four remaining
  bytes and reads them as a little endian integer.  It is an input of the
  examples, nothing is proved about \<open>Serialization::decode_int\<close> itself.
\<close>

abbreviation example_decode_int :: decoder where
  "example_decode_int \<equiv>
     \<lambda>buf p r. if r < 4 then None
               else Some (word_rcat (rev (take 4 (drop p buf))), p + 4, r - 4)"

text \<open>
  The components the examples run the session manager with: a handle table that
  hands out consecutive handle ids and a lock manager that grants every
  request.
\<close>

abbreviation example_components :: "nat components" where
  "example_components \<equiv>
     \<lparr>HandleTable_Open = \<lambda>sid path mode t. (Inr t, Suc t),
      HandleTable_Close = \<lambda>h t. t,
      HandleTable_DestroyAllForSession = \<lambda>sid t. t,
      LockManager_TryLock = \<lambda>h mode t. (GRANTED, t),
      LockManager_Release = \<lambda>h t. t\<rparr>"

text \<open>A master with one connected session, number 0, whose lease runs until tick 10.\<close>

abbreviation example_master :: "nat master" where
  "example_master \<equiv>
     \<lparr>sessions = [0 \<mapsto> \<lparr>liveness_state = CONNECTED, lease_deadline = 10\<rparr>],
      next_session_id = 1, lease_timeout = 10, tables = 0\<rparr>"

section \<open>Properties of the CLOSE request handler\<close>

lemma unat_size_t_minus_2:
  "unat (x - 2 :: size_t) = (if 2 \<le> unat x then unat x - 2 else unat x + 2 ^ 64 - 2)"
  by (auto simp: unat_sub_if_size word_size)

lemma Close_run_decode_None:
  "decode_int (message ev) 2 (messageLen ev - 2) = None \<Longrightarrow>
   RequestHandlerClose_run decode_int ev =
     [Serialization_decode_int 2 (messageLen ev - 2),
      HT_ERROR ''Encoding problem with CLOSE message'',
      cb_error PROTOCOL_ERROR ''Encoding problem with CLOSE message'']"
  by (simp add: RequestHandlerClose_run_def)

lemma Close_run_decode_Some:
  "decode_int (message ev) 2 (messageLen ev - 2) = Some (fd, p, r) \<Longrightarrow>
   RequestHandlerClose_run decode_int ev =
     [Serialization_decode_int 2 (messageLen ev - 2), broker_close fd]"
  by (simp add: RequestHandlerClose_run_def)

text \<open>
  C1.  When the decoder fails on the bytes after the two byte opcode, the run
  sends exactly one error reply, with code \<open>PROTOCOL_ERROR\<close> and the literal
  message "Encoding problem with CLOSE message", and the filesystem close
  primitive is not invoked.
\<close>

theorem close_decode_failure_protocol_error:
  assumes "decode_int (message ev) 2 (messageLen ev - 2) = None"
  shows "error_replies (RequestHandlerClose_run decode_int ev) =
           [(PROTOCOL_ERROR, ''Encoding problem with CLOSE message'')]
         \<and> closes (RequestHandlerClose_run decode_int ev) = []"
  using assms by (simp add: Close_run_decode_None)

text \<open>
  A CLOSE request cut off after two of the four descriptor bytes, read by a
  decoder that wants four remaining bytes.
\<close>

theorem close_decode_failure_protocol_error_witness:
  "error_replies
     (RequestHandlerClose_run example_decode_int \<lparr>message = [0, 4, 5, 1], messageLen = 4\<rparr>)
     = [(PROTOCOL_ERROR, ''Encoding problem with CLOSE message'')]
   \<and> closes
     (RequestHandlerClose_run example_decode_int \<lparr>message = [0, 4, 5, 1], messageLen = 4\<rparr>)
     = []"
proof -
  let ?ev = "\<lparr>message = [0, 4, 5, 1], messageLen = 4\<rparr>"
  have h: "example_decode_int (message ?ev) 2 (messageLen ?ev - 2) = None"
    by simp
  show ?thesis
    using close_decode_failure_protocol_error [of example_decode_int ?ev, OF h] by simp
qed

text \<open>
  C2.  When the decoder succeeds, the run invokes the filesystem close primitive
  exactly once, with the decoded 32 bit descriptor, and sends no error reply.
\<close>

theorem close_decode_success_broker_close:
  assumes "decode_int (message ev) 2 (messageLen ev - 2) = Some (fd, p, r)"
  shows "closes (RequestHandlerClose_run decode_int ev) = [fd]
         \<and> error_replies (RequestHandlerClose_run decode_int ev) = []
         \<and> RequestHandlerClose_run decode_int ev =
             [Serialization_decode_int 2 (messageLen ev - 2), broker_close fd]"
  using assms by (simp add: Close_run_decode_Some)

text \<open>A complete CLOSE request for descriptor 261, stored little endian.\<close>

theorem close_decode_success_broker_close_witness:
  "closes
     (RequestHandlerClose_run example_decode_int
        \<lparr>message = [0, 4, 5, 1, 0, 0], messageLen = 6\<rparr>) = [261]
   \<and> error_replies
     (RequestHandlerClose_run example_decode_int
        \<lparr>message = [0, 4, 5, 1, 0, 0], messageLen = 6\<rparr>) = []"
proof -
  let ?ev = "\<lparr>message = [0, 4, 5, 1, 0, 0], messageLen = 6\<rparr>"
  have v: "(word_rcat (rev (take 4 (drop 2 [0, 4, 5, 1, 0, 0 :: u8]))) :: u32) = 261"
    by code_simp
  have h: "example_decode_int (message ?ev) 2 (messageLen ?ev - 2) = Some (261, 6, 0)"
    using v by simp
  show ?thesis
    using close_decode_success_broker_close [of example_decode_int ?ev, OF h] by simp
qed

text \<open>
  C3.  Every run takes exactly one of the two reply paths, and which one is
  decided by the decoder alone: the close primitive when it succeeds, the
  \<open>PROTOCOL_ERROR\<close> reply when it fails.  In both cases the run ends with that
  reply; the handler has no third exit, so the decode failure stays inside it.
\<close>

theorem close_exactly_one_reply_path:
  "length (closes (RequestHandlerClose_run decode_int ev))
     + length (error_replies (RequestHandlerClose_run decode_int ev)) = 1
   \<and> (case decode_int (message ev) 2 (messageLen ev - 2) of
         None \<Rightarrow>
           closes (RequestHandlerClose_run decode_int ev) = []
           \<and> error_replies (RequestHandlerClose_run decode_int ev) =
               [(PROTOCOL_ERROR, ''Encoding problem with CLOSE message'')]
           \<and> last (RequestHandlerClose_run decode_int ev) =
               cb_error PROTOCOL_ERROR ''Encoding problem with CLOSE message''
       | Some (fd, p, r) \<Rightarrow>
           closes (RequestHandlerClose_run decode_int ev) = [fd]
           \<and> error_replies (RequestHandlerClose_run decode_int ev) = []
           \<and> last (RequestHandlerClose_run decode_int ev) = broker_close fd)"
proof (cases "decode_int (message ev) 2 (messageLen ev - 2)")
  case None
  then show ?thesis by (simp add: Close_run_decode_None)
next
  case (Some res)
  obtain fd p r where "res = (fd, p, r)" by (cases res)
  with Some show ?thesis by (simp add: Close_run_decode_Some)
qed

text \<open>
  C9.  The remaining count handed to the decoder is \<open>messageLen - 2\<close> in
  \<open>size_t\<close> arithmetic.  From two bytes on this is the payload length.  Below
  two bytes it wraps to \<open>messageLen + 2 ^ 64 - 2\<close>, and the decoder is called
  with that count all the same: it is the first thing every run does, whatever
  the length.
\<close>

theorem close_remaining_wraps:
  "hd (RequestHandlerClose_run decode_int ev) =
     Serialization_decode_int 2 (messageLen ev - 2)
   \<and> unat (messageLen ev - 2) =
       (if 2 \<le> unat (messageLen ev) then unat (messageLen ev) - 2
        else unat (messageLen ev) + 2 ^ 64 - 2)"
  by (simp add: RequestHandlerClose_run_def Let_def unat_size_t_minus_2)






section \<open>Properties of the lock state machine\<close>

lemma holders_pure_Nil: "holders_pure []"
  by (simp add: holders_pure_def)

lemma holders_pure_single: "holders_pure [(h, mode)]"
  by (cases mode) (simp_all add: holders_pure_def is_shared_def)

lemma holders_pure_filter: "holders_pure hs \<Longrightarrow> holders_pure (filter P hs)"
  by (auto simp: holders_pure_def list_all_iff)

lemma holders_pure_TryLock:
  "holders_pure (holders l) \<Longrightarrow> holders_pure (holders (snd (TryLock h mode l)))"
  by (auto simp: TryLock_def holders_pure_single)
     (auto simp: holders_pure_def is_shared_def)

lemma holders_pure_pop: "pop_wait_queue q = (granted, rest) \<Longrightarrow> holders_pure granted"
proof (induction q rule: pop_wait_queue.induct)
  case 1
  then show ?case by (auto simp: holders_pure_def)
next
  case (2 h q)
  then show ?case by (auto simp: holders_pure_def)
next
  case (3 h q)
  have "list_all is_shared (takeWhile is_shared q)"
    by (simp add: list_all_iff) (meson set_takeWhileD)
  with 3 show ?case by (auto simp: holders_pure_def is_shared_def)
qed

lemma holders_pure_Release:
  "holders_pure (holders l) \<Longrightarrow> holders_pure (holders (snd (Release h l)))"
  by (auto simp: Release_def Let_def holders_pure_filter split: prod.splits
           dest: holders_pure_pop)

lemma holders_pure_step:
  "holders_pure (holders l) \<Longrightarrow> holders_pure (holders (lock_step l op))"
  by (cases op) (simp_all add: holders_pure_TryLock holders_pure_Release)

lemma holders_pure_steps:
  "holders_pure (holders l) \<Longrightarrow> holders_pure (holders (lock_steps ops l))"
  unfolding lock_steps_def
  by (induction ops arbitrary: l) (simp_all add: holders_pure_step)

lemma holders_pure_invariant:
  assumes "holders_pure hs"
  shows "never_mixed hs \<and> exclusive_alone hs"
proof -
  from assms consider "\<forall>x \<in> set hs. snd x = SHARED" | h where "hs = [(h, EXCLUSIVE)]"
    by (auto simp: holders_pure_def list_all_iff is_shared_def)
  then show ?thesis
  proof cases
    case 1
    then have "never_mixed hs"
      unfolding never_mixed_def by metis
    moreover from 1 have "EXCLUSIVE \<notin> set (map snd hs)"
      by auto
    ultimately show ?thesis
      by (simp add: exclusive_alone_def)
  next
    case 2
    then show ?thesis
      by (simp add: never_mixed_def exclusive_alone_def)
  qed
qed

text \<open>
  C5.  Whatever sequence of TryLock and Release calls is made on the lock of a
  node, starting from the unlocked state, the holder-set is never mixed-mode and
  an EXCLUSIVE holder is never accompanied by another holder.
\<close>

theorem holder_set_never_mixed:
  "never_mixed (holders (lock_steps ops UNLOCKED))
   \<and> exclusive_alone (holders (lock_steps ops UNLOCKED))"
  by (rule holders_pure_invariant, rule holders_pure_steps)
     (simp add: UNLOCKED_def holders_pure_Nil)

text \<open>
  An exclusive holder with two shared requests and one exclusive request queued
  behind it: its release grants the two shared requests together and leaves the
  exclusive one waiting.
\<close>

theorem holder_set_never_mixed_witness:
  "holders (lock_steps [OpTryLock 1 EXCLUSIVE, OpTryLock 2 SHARED, OpTryLock 3 SHARED,
                        OpTryLock 4 EXCLUSIVE, OpRelease 1] UNLOCKED)
     = [(2, SHARED), (3, SHARED)]
   \<and> never_mixed [(2, SHARED), (3, SHARED)]
   \<and> exclusive_alone [(2, SHARED), (3, SHARED)]"
proof -
  let ?ops = "[OpTryLock 1 EXCLUSIVE, OpTryLock 2 SHARED, OpTryLock 3 SHARED,
               OpTryLock 4 EXCLUSIVE, OpRelease 1]"
  have e: "holders (lock_steps ?ops UNLOCKED) = [(2, SHARED), (3, SHARED)]"
    by (simp add: lock_steps_def UNLOCKED_def TryLock_def Release_def is_shared_def)
  show ?thesis
    using holder_set_never_mixed [of ?ops] e by simp
qed

section \<open>Properties of the session state machine\<close>

lemma expire_session_next [simp]:
  "next_session_id (expire_session c now i st) = next_session_id st"
  by (simp add: expire_session_def split: option.splits)

lemma expire_session_connected:
  "session_liveness (expire_session c now i st) sid = Some CONNECTED \<Longrightarrow>
   session_liveness st sid = Some CONNECTED"
  by (auto simp: expire_session_def session_liveness_def split: option.splits if_splits)

lemma fold_expire_next [simp]:
  "next_session_id (fold (expire_session c now) ids st) = next_session_id st"
  by (induction ids arbitrary: st) simp_all

lemma fold_expire_connected:
  "session_liveness (fold (expire_session c now) ids st) sid = Some CONNECTED \<Longrightarrow>
   session_liveness st sid = Some CONNECTED"
  by (induction ids arbitrary: st) (auto dest: expire_session_connected)

lemma session_over_ExpireCheck:
  "session_over st sid \<Longrightarrow> session_over (ExpireCheck c now st) sid"
  by (auto simp: session_over_def ExpireCheck_def dest: fold_expire_connected)

lemma session_over_CreateSession:
  "session_over st sid \<Longrightarrow> session_over (snd (CreateSession now st)) sid"
  by (auto simp: session_over_def CreateSession_def session_liveness_def)

lemma session_over_Keepalive:
  "session_over st sid \<Longrightarrow> session_over (snd (Keepalive sid' now st)) sid"
  by (auto simp: session_over_def Keepalive_def session_liveness_def split: option.splits)

lemma session_over_DestroySession:
  "session_over st sid \<Longrightarrow> session_over (DestroySession c sid' st) sid"
  by (auto simp: session_over_def DestroySession_def session_liveness_def split: option.splits)

lemma session_over_Open:
  "session_over st sid \<Longrightarrow> session_over (snd (Open c sid' path mode st)) sid"
  by (auto simp: session_over_def Open_def session_liveness_def split: prod.splits)

lemma session_over_Lock:
  "session_over st sid \<Longrightarrow> session_over (snd (Lock c sid' h mode st)) sid"
  by (auto simp: session_over_def Lock_def session_liveness_def split: prod.splits)

lemma session_over_step:
  "session_over st sid \<Longrightarrow> session_over (master_step c st ev) sid"
proof (cases ev)
  case (DoClose h)
  assume "session_over st sid"
  with DoClose show ?thesis by (simp add: session_over_def session_liveness_def)
next
  case (DoRelease h)
  assume "session_over st sid"
  with DoRelease show ?thesis by (simp add: session_over_def session_liveness_def)
qed (simp_all add: session_over_ExpireCheck session_over_CreateSession session_over_Keepalive
      session_over_DestroySession session_over_Open session_over_Lock)

lemma session_over_steps:
  "session_over st sid \<Longrightarrow> session_over (master_steps c evs st) sid"
  unfolding master_steps_def
  by (induction evs arbitrary: st) (simp_all add: session_over_step)

lemma session_over_Open_fails:
  "session_over st sid \<Longrightarrow> fst (Open c sid path mode st) = Inl SessionInvalid"
  by (simp add: session_over_def Open_def)

lemma session_over_Lock_fails:
  "session_over st sid \<Longrightarrow> fst (Lock c sid h mode st) = Inl SessionInvalid"
  by (simp add: session_over_def Lock_def)

lemma session_over_Keepalive_expired:
  "session_over st sid \<Longrightarrow> fst (Keepalive sid now st) = Keepalive_EXPIRED"
  by (auto simp: session_over_def Keepalive_def session_liveness_def split: option.splits)

lemma master_wf_init: "master_wf (master_init timeout t)"
  by (simp add: master_wf_def master_init_def)

lemma expire_session_dom [simp]:
  "dom (sessions (expire_session c now i st)) = dom (sessions st)"
  by (auto simp: expire_session_def split: option.splits if_splits)

lemma fold_expire_dom [simp]:
  "dom (sessions (fold (expire_session c now) ids st)) = dom (sessions st)"
  by (induction ids arbitrary: st) simp_all

lemma master_wf_step: "master_wf st \<Longrightarrow> master_wf (master_step c st ev)"
proof (cases ev)
  case (DoCreateSession now)
  assume "master_wf st"
  with DoCreateSession show ?thesis
    by (auto simp: master_wf_def CreateSession_def less_Suc_eq)
next
  case (DoKeepalive sid now)
  assume "master_wf st"
  with DoKeepalive show ?thesis
    by (auto simp: master_wf_def Keepalive_def split: option.splits if_splits)
next
  case (DoExpireCheck now)
  assume "master_wf st"
  with DoExpireCheck show ?thesis
    by (simp add: master_wf_def ExpireCheck_def)
next
  case (DoDestroySession sid)
  assume "master_wf st"
  with DoDestroySession show ?thesis
    by (auto simp: master_wf_def DestroySession_def split: option.splits if_splits)
next
  case (DoOpen sid path mode)
  assume "master_wf st"
  with DoOpen show ?thesis
    by (auto simp: master_wf_def Open_def split: prod.splits)
next
  case (DoClose h)
  assume "master_wf st"
  with DoClose show ?thesis
    by (simp add: master_wf_def)
next
  case (DoLock sid h mode)
  assume "master_wf st"
  with DoLock show ?thesis
    by (auto simp: master_wf_def Lock_def split: prod.splits)
next
  case (DoRelease h)
  assume "master_wf st"
  with DoRelease show ?thesis
    by (simp add: master_wf_def)
qed

lemma master_wf_steps: "master_wf st \<Longrightarrow> master_wf (master_steps c evs st)"
  unfolding master_steps_def
  by (induction evs arbitrary: st) (simp_all add: master_wf_step)

text \<open>
  C6.  Once ExpireCheck has moved a session from CONNECTED to EXPIRED, then after
  any further events whatsoever an Open against that session id fails with
  SessionInvalid, a Lock against it fails with SessionInvalid, and a Keepalive
  for it returns EXPIRED.
\<close>

theorem expired_session_never_succeeds:
  assumes wf: "master_wf st"
    and before: "session_liveness st sid = Some CONNECTED"
    and expired: "session_liveness (ExpireCheck c now st) sid = Some EXPIRED"
  shows "fst (Open c sid path mode (master_steps c evs (ExpireCheck c now st))) = Inl SessionInvalid
    \<and> fst (Lock c sid h lmode (master_steps c evs (ExpireCheck c now st))) = Inl SessionInvalid
    \<and> fst (Keepalive sid t (master_steps c evs (ExpireCheck c now st))) = Keepalive_EXPIRED"
proof -
  from before have "sid \<in> dom (sessions st)"
    by (auto simp: session_liveness_def)
  with wf have "sid < next_session_id st"
    by (simp add: master_wf_def)
  then have "sid < next_session_id (ExpireCheck c now st)"
    by (simp add: ExpireCheck_def)
  with expired have "session_over (ExpireCheck c now st) sid"
    by (simp add: session_over_def)
  then have "session_over (master_steps c evs (ExpireCheck c now st)) sid"
    by (rule session_over_steps)
  then show ?thesis
    by (simp add: session_over_Open_fails session_over_Lock_fails session_over_Keepalive_expired)
qed

text \<open>
  Session 0 expires at tick 11.  Afterwards a new session is created, a keepalive
  for session 0 arrives and the new session opens a node; an Open, a Lock and a
  Keepalive against session 0 all fail, while the new session can open.
\<close>

theorem expired_session_never_succeeds_witness:
  "master_wf example_master
   \<and> session_liveness example_master 0 = Some CONNECTED
   \<and> session_liveness (ExpireCheck example_components 11 example_master) 0 = Some EXPIRED
   \<and> fst (Open example_components 0 ''/a'' 1
         (master_steps example_components
            [DoCreateSession 12, DoKeepalive 0 13, DoOpen 1 ''/a'' 1]
            (ExpireCheck example_components 11 example_master))) = Inl SessionInvalid
   \<and> fst (Lock example_components 0 0 EXCLUSIVE
         (master_steps example_components
            [DoCreateSession 12, DoKeepalive 0 13, DoOpen 1 ''/a'' 1]
            (ExpireCheck example_components 11 example_master))) = Inl SessionInvalid
   \<and> fst (Keepalive 0 14
         (master_steps example_components
            [DoCreateSession 12, DoKeepalive 0 13, DoOpen 1 ''/a'' 1]
            (ExpireCheck example_components 11 example_master))) = Keepalive_EXPIRED
   \<and> fst (Open example_components 1 ''/a'' 1
         (master_steps example_components
            [DoCreateSession 12, DoKeepalive 0 13, DoOpen 1 ''/a'' 1]
            (ExpireCheck example_components 11 example_master))) = Inr 1"
proof -
  let ?evs = "[DoCreateSession 12, DoKeepalive 0 13, DoOpen 1 ''/a'' 1]"
  have wf: "master_wf example_master"
    by (simp add: master_wf_def)
  have before: "session_liveness example_master 0 = Some CONNECTED"
    by (simp add: session_liveness_def)
  have expired:
    "session_liveness (ExpireCheck example_components 11 example_master) 0 = Some EXPIRED"
    by (simp add: session_liveness_def ExpireCheck_def expire_session_def)
  have other:
    "fst (Open example_components 1 ''/a'' 1
       (master_steps example_components ?evs
          (ExpireCheck example_components 11 example_master))) = Inr 1"
    by (simp add: master_steps_def Open_def CreateSession_def Keepalive_def
          session_liveness_def ExpireCheck_def expire_session_def)
  show ?thesis
    using expired_session_never_succeeds [OF wf before expired, of "''/a''" 1 ?evs 0 EXCLUSIVE 14]
      wf before expired other
    by simp
qed

section \<open>Properties of the DestroySession request handler\<close>






end
